theory Spec2Isabelle
  imports Complex_Main
begin

section \<open>Data model\<close>

text \<open>
  The dashboard script \<^verbatim>\<open>streamlit_app.py\<close> reads the sheet \<^verbatim>\<open>MATRIZ\<close> into a pandas
  data frame, derives classification columns in \<^verbatim>\<open>load_data\<close> and then filters the
  derived frame with five boolean masks. A frame is modelled as the list of its column
  names together with the list of its rows; a row is a record of the columns the script
  reads. A numeric cell is a \<open>real option\<close>, \<open>None\<close> being pandas' missing value (NaN);
  floating-point rounding is not modelled. The columns \<^verbatim>\<open>NO\<close> and \<^verbatim>\<open>clase\<close> are compared
  with, and looked up by, Python values of any type, so their cells keep the three
  shapes a spreadsheet cell can have.
\<close>

datatype cell = Str string | Num real | NaN

record predio =
  NO :: cell
  clase :: cell
  ESTRATO :: "real option"
  DESTINACION :: "string option"
  avaluo2024 :: "real option"
  area_const :: "real option"
  tarifa :: "real option"
  TARIFA_PROPUESTA :: "real option"
  DIFERENCIA_EN_EL_VALOR :: "real option"

text \<open>
  The fields \<open>NO\<close> and \<open>DIFERENCIA_EN_EL_VALOR\<close> of a row carry information only when
  the frame lists the column of that name: the script tests
  \<^verbatim>\<open>"NO" in df.columns\<close> and \<^verbatim>\<open>"DIFERENCIA EN EL VALOR" in df.columns\<close> before reading them.
\<close>

record sheet =
  columns :: "string list"
  rows :: "predio list"

record derived = predio +
  zona :: string
  estrato_cat :: string
  rango_avaluo_2024 :: "string option"
  rango_area_const :: "string option"
  cambio_tarifa :: "real option"
  situacion_tarifa :: string
  situacion_ipu :: string

text \<open>The exceptions pandas can raise inside \<^verbatim>\<open>pd.cut\<close>.\<close>

datatype py_error = ValueError | IndexError

section \<open>Elementwise pandas and numpy primitives\<close>

text \<open>\<^verbatim>\<open>Series.fillna(v)\<close> on one cell.\<close>

definition fillna :: "'a \<Rightarrow> 'a option \<Rightarrow> 'a" where
  "fillna v c = (case c of None \<Rightarrow> v | Some x \<Rightarrow> x)"

text \<open>
  \<^verbatim>\<open>Series.map(d)\<close> with a dictionary keyed by integers, on one cell: a number is looked
  up by value (Python's \<open>1.0\<close> and \<open>1\<close> are the same key), a string or a missing cell
  is no key and maps to the missing value.
\<close>

definition series_map :: "(real \<times> string) list \<Rightarrow> cell \<Rightarrow> string option" where
  "series_map d c = (case c of Num x \<Rightarrow> map_of d x | Str s \<Rightarrow> None | NaN \<Rightarrow> None)"

text \<open>
  \<^verbatim>\<open>astype(int)\<close> is a cast to a signed 64-bit integer: truncation towards zero, exact
  when the truncated value fits. Beyond the 64 bits the result depends on how pandas
  stored the column and on the processor: an unsigned column wraps around modulo
  \<open>2 ^ 64\<close>, which is what is written here; a float column may saturate and a column of
  Python integers raises \<^verbatim>\<open>OverflowError\<close>. Statements about the outcome of the cast are
  therefore made for values within the 64 bits only, where all of these agree.
\<close>

definition int64_wrap :: "int \<Rightarrow> int" where
  "int64_wrap k = (k + 2 ^ 63) mod 2 ^ 64 - 2 ^ 63"

definition astype_int :: "real \<Rightarrow> int" where
  "astype_int x = int64_wrap (if 0 \<le> x then \<lfloor>x\<rfloor> else \<lceil>x\<rceil>)"

definition digit_char :: "nat \<Rightarrow> char" where
  "digit_char d =
     (if d = 0 then CHR ''0'' else if d = 1 then CHR ''1'' else if d = 2 then CHR ''2''
      else if d = 3 then CHR ''3'' else if d = 4 then CHR ''4'' else if d = 5 then CHR ''5''
      else if d = 6 then CHR ''6'' else if d = 7 then CHR ''7'' else if d = 8 then CHR ''8''
      else CHR ''9'')"

fun str_nat :: "nat \<Rightarrow> string" where
  "str_nat n =
     (if n < 10 then [digit_char n] else str_nat (n div 10) @ [digit_char (n mod 10)])"

declare str_nat.simps [simp del]

text \<open>\<^verbatim>\<open>astype(str)\<close> on an integer: Python's \<^verbatim>\<open>str(int)\<close>.\<close>

definition str_int :: "int \<Rightarrow> string" where
  "str_int k = (if k < 0 then CHR ''-'' # str_nat (nat (- k)) else str_nat (nat k))"

text \<open>
  What the string form of an integer is, stated apart from \<open>str_int\<close>: \<open>decimal_int\<close>
  reads a string as a decimal numeral and accepts only the canonical one, an optional
  minus sign followed by digits, without a leading zero and without a negative zero.
  It is the yardstick for the strings \<open>str_int\<close> produces.
\<close>

definition digit_of :: "char \<Rightarrow> nat option" where
  "digit_of = map_of (zip ''0123456789'' [0, 1, 2, 3, 4, 5, 6, 7, 8, 9])"

fun digits_value :: "string \<Rightarrow> nat \<Rightarrow> nat option" where
  "digits_value [] acc = Some acc"
| "digits_value (c # cs) acc =
     (case digit_of c of None \<Rightarrow> None | Some d \<Rightarrow> digits_value cs (10 * acc + d))"

definition decimal_nat :: "string \<Rightarrow> nat option" where
  "decimal_nat s =
     (if s = [] \<or> (1 < length s \<and> hd s = CHR ''0'') then None else digits_value s 0)"

definition decimal_int :: "string \<Rightarrow> int option" where
  "decimal_int s =
     (if s \<noteq> [] \<and> hd s = CHR ''-'' then
        (case decimal_nat (tl s) of
           None \<Rightarrow> None
         | Some n \<Rightarrow> if n = 0 then None else Some (- int n))
      else map_option int (decimal_nat s))"

text \<open>\<^verbatim>\<open>Series.replace(d)\<close> on one string cell: a cell equal to a key becomes its value.\<close>

definition replace_dict :: "(string \<times> string) list \<Rightarrow> string \<Rightarrow> string" where
  "replace_dict d s = (case map_of d s of None \<Rightarrow> s | Some v \<Rightarrow> v)"

text \<open>Comparisons of a numeric cell with a number: every comparison with NaN is false.\<close>

definition cell_lt :: "real option \<Rightarrow> real \<Rightarrow> bool" where
  "cell_lt c y = (case c of None \<Rightarrow> False | Some x \<Rightarrow> x < y)"

definition cell_eq :: "real option \<Rightarrow> real \<Rightarrow> bool" where
  "cell_eq c y = (case c of None \<Rightarrow> False | Some x \<Rightarrow> x = y)"

definition cell_gt :: "real option \<Rightarrow> real \<Rightarrow> bool" where
  "cell_gt c y = (case c of None \<Rightarrow> False | Some x \<Rightarrow> y < x)"

definition cell_ge :: "real option \<Rightarrow> real \<Rightarrow> bool" where
  "cell_ge c y = (case c of None \<Rightarrow> False | Some x \<Rightarrow> y \<le> x)"

definition cell_le :: "real option \<Rightarrow> real \<Rightarrow> bool" where
  "cell_le c y = (case c of None \<Rightarrow> False | Some x \<Rightarrow> x \<le> y)"

text \<open>Subtraction of two numeric cells: missing when either is.\<close>

definition cell_sub :: "real option \<Rightarrow> real option \<Rightarrow> real option" where
  "cell_sub a b =
     (case a of None \<Rightarrow> None
      | Some x \<Rightarrow> (case b of None \<Rightarrow> None | Some y \<Rightarrow> Some (x - y)))"

text \<open>\<^verbatim>\<open>np.select(conds, choices, default)\<close> on one row: the first true condition.\<close>

fun np_select :: "(bool \<times> 'a) list \<Rightarrow> 'a \<Rightarrow> 'a" where
  "np_select [] d = d"
| "np_select ((c, v) # cs) d = (if c then v else np_select cs d)"

text \<open>\<^verbatim>\<open>Series.isin(sel)\<close> on one categorical cell; a missing cell is in no selection.\<close>

definition isin :: "string list \<Rightarrow> string option \<Rightarrow> bool" where
  "isin sel c = (case c of None \<Rightarrow> False | Some s \<Rightarrow> s \<in> set sel)"

fun dropna :: "'a option list \<Rightarrow> 'a list" where
  "dropna [] = []"
| "dropna (None # xs) = dropna xs"
| "dropna (Some x # xs) = x # dropna xs"

section \<open>Quantiles and band labels\<close>

text \<open>
  \<^verbatim>\<open>Series.quantile\<close> with the default linear interpolation, on the non-missing values
  \<open>xs\<close>: the value at position \<open>q * (n - 1)\<close> of the sorted values, interpolated between
  its two neighbours. \<^verbatim>\<open>load_data\<close> calls it only when there is a non-missing value and
  with \<open>0 \<le> q \<le> 1\<close>, where both indices are within the list.
\<close>

definition quantile :: "real list \<Rightarrow> real \<Rightarrow> real" where
  "quantile xs q =
     (let s = sort xs;
          n = length s;
          pos = q * real (n - 1);
          lo = nat \<lfloor>pos\<rfloor>;
          hi = min (lo + 1) (n - 1);
          g = pos - real lo
      in s ! lo + (s ! hi - s ! lo) * g)"

definition quantile_points :: "real list" where
  "quantile_points = [0, 2 / 10, 4 / 10, 6 / 10, 8 / 10, 1]"

text \<open>\<^verbatim>\<open>np.unique\<close>: the sorted distinct values.\<close>

definition np_unique :: "real list \<Rightarrow> real list" where
  "np_unique xs = sort (remdups xs)"

text \<open>The format \<^verbatim>\<open>,.0f\<close>: round to the nearest integer, ties to even; group by thousands.\<close>

definition round_half_even :: "real \<Rightarrow> int" where
  "round_half_even x =
     (let f = \<lfloor>x\<rfloor>; d = x - of_int f
      in if d < 1 / 2 then f else if 1 / 2 < d then f + 1
         else if even f then f else f + 1)"

fun group3 :: "string \<Rightarrow> string" where
  "group3 s =
     (if length s \<le> 3 then s
      else group3 (take (length s - 3) s) @ CHR '','' # drop (length s - 3) s)"

declare group3.simps [simp del]

definition format_comma_0f :: "real \<Rightarrow> string" where
  "format_comma_0f x =
     (if x < 0 then ''-'' else []) @ group3 (str_nat (nat \<bar>round_half_even x\<bar>))"

text \<open>\<^verbatim>\<open>s.replace(",", ".")\<close>.\<close>

definition replace_comma :: "string \<Rightarrow> string" where
  "replace_comma s = map (\<lambda>c. if c = CHR '','' then CHR ''.'' else c) s"

definition avaluo_label :: "real \<Rightarrow> real \<Rightarrow> string" where
  "avaluo_label a b =
     replace_comma (''$'' @ format_comma_0f a @ '' - $'' @ format_comma_0f b)"

text \<open>The loop \<^verbatim>\<open>for i in range(len(qs) - 1): labels.append(...)\<close>.\<close>

definition avaluo_labels :: "real list \<Rightarrow> string list" where
  "avaluo_labels qs = map (\<lambda>i. avaluo_label (qs ! i) (qs ! (i + 1))) [0..<length qs - 1]"

section \<open>Binning: \<^verbatim>\<open>pd.cut\<close>\<close>

text \<open>A bin edge is a number or \<^verbatim>\<open>np.inf\<close>.\<close>

datatype edge = Fin real | PInf

fun edge_less :: "edge \<Rightarrow> real \<Rightarrow> bool" where
  "edge_less (Fin b) x = (b < x)"
| "edge_less PInf x = False"

fun edge_le :: "edge \<Rightarrow> edge \<Rightarrow> bool" where
  "edge_le (Fin a) (Fin b) = (a \<le> b)"
| "edge_le (Fin a) PInf = True"
| "edge_le PInf (Fin b) = False"
| "edge_le PInf PInf = True"

text \<open>
  One value against the edges, with \<^verbatim>\<open>right=True\<close>: \<open>ids\<close> is
  \<^verbatim>\<open>bins.searchsorted(x, side="left")\<close>, the number of edges below the value;
  \<^verbatim>\<open>include_lowest\<close> sets it to 1 for a value equal to the first edge; a missing value,
  and a value with \<open>ids = 0\<close> or \<open>ids = len(bins)\<close>, gets no band.
\<close>

definition cut_one :: "edge list \<Rightarrow> string list \<Rightarrow> bool \<Rightarrow> real option \<Rightarrow> string option" where
  "cut_one bins labels include_lowest x =
     (case x of None \<Rightarrow> None
      | Some v \<Rightarrow>
          (let ids0 = length (filter (\<lambda>b. edge_less b v) bins);
               ids = (if include_lowest \<and> hd bins = Fin v then 1 else ids0)
           in if ids = length bins \<or> ids = 0 then None else Some (labels ! (ids - 1))))"

text \<open>
  \<^verbatim>\<open>pd.cut(x, bins=bins, labels=labels, include_lowest=..., duplicates=...)\<close> with a list
  of edges and a list of labels. It raises when the edges decrease, when an edge repeats
  and duplicates are not dropped, when the first edge is read from an empty list,
  when a label repeats, and when the labels are not one fewer than the edges.
\<close>

definition pd_cut ::
  "real option list \<Rightarrow> edge list \<Rightarrow> string list \<Rightarrow> bool \<Rightarrow> bool \<Rightarrow> py_error + string option list"
where
  "pd_cut x bins labels include_lowest drop_duplicates =
     (if \<not> sorted_wrt edge_le bins then Inl ValueError
      else if length (remdups bins) < length bins \<and> length bins \<noteq> 2 \<and> \<not> drop_duplicates
        then Inl ValueError
      else
        (let bins' = (if length (remdups bins) < length bins \<and> length bins \<noteq> 2
                      then remdups bins else bins)
         in if include_lowest \<and> bins' = [] then Inl IndexError
            else if \<not> distinct labels then Inl ValueError
            else if length labels + 1 \<noteq> length bins' then Inl ValueError
            else Inr (map (cut_one bins' labels include_lowest) x)))"

section \<open>The loader: \<^verbatim>\<open>load_data\<close>\<close>

text \<open>Rows marked \<^verbatim>\<open>"NO"\<close> are dropped when the column exists: \<^verbatim>\<open>df[df["NO"] != "NO"]\<close>.\<close>

definition exclude_NO :: "sheet \<Rightarrow> predio list" where
  "exclude_NO df =
     (if ''NO'' \<in> set (columns df) then filter (\<lambda>r. NO r \<noteq> Str ''NO'') (rows df)
      else rows df)"

definition zona_of :: "cell \<Rightarrow> string" where
  "zona_of c = fillna ''SIN CLASE'' (series_map [(1, ''URBANO''), (2, ''RURAL'')] c)"

definition estrato_cat_of :: "real option \<Rightarrow> string" where
  "estrato_cat_of e =
     replace_dict [(''0'', ''SIN ESTRATO'')] (str_int (astype_int (fillna 0 e)))"

text \<open>
  The valuation bands of a column: quantile edges of its non-missing values, made
  unique, one label per pair of neighbouring edges, then \<^verbatim>\<open>pd.cut\<close> with
  \<^verbatim>\<open>include_lowest=True, duplicates="drop"\<close>. A column without any value gets the
  constant \<^verbatim>\<open>"SIN AVALUO"\<close>.
\<close>

definition rango_avaluo :: "real option list \<Rightarrow> py_error + string option list" where
  "rango_avaluo col =
     (if 0 < length (dropna col) then
        (let qs = np_unique (map (quantile (dropna col)) quantile_points);
             labels = avaluo_labels qs
         in pd_cut col (map Fin qs) labels True True)
      else Inr (map (\<lambda>c. Some ''SIN AVALUO'') col))"

text \<open>
  The area bands. The labels end in the superscript two and the second letter of the
  last label is an accented a; both are written as their UTF-8 bytes.
\<close>

definition area_bins :: "edge list" where
  "area_bins = [Fin 0, Fin 35, Fin 70, Fin 120, PInf]"

definition area_labels :: "string list" where
  "area_labels =
     [''0 - 35 m'' @ [CHR 0xC2, CHR 0xB2],
      ''35 - 70 m'' @ [CHR 0xC2, CHR 0xB2],
      ''70 - 120 m'' @ [CHR 0xC2, CHR 0xB2],
      ''M'' @ [CHR 0xC3, CHR 0xA1] @ ''s de 120 m'' @ [CHR 0xC2, CHR 0xB2]]"

definition rango_area :: "real option list \<Rightarrow> py_error + string option list" where
  "rango_area col = pd_cut col area_bins area_labels True False"

definition situacion_tarifa_of :: "real option \<Rightarrow> string" where
  "situacion_tarifa_of c =
     np_select
       [(cell_lt c 0, ''Baja tarifa''), (cell_eq c 0, ''Misma tarifa''),
        (cell_gt c 0, ''Sube tarifa'')]
       ''Sin dato''"

definition situacion_ipu_of :: "bool \<Rightarrow> real option \<Rightarrow> string" where
  "situacion_ipu_of has_column c =
     (if has_column then
        np_select
          [(cell_lt c 0, ''Baja IPU''), (cell_eq c 0, ''IPU igual''),
           (cell_gt c 0, ''Sube IPU'')]
          ''Sin dato''
      else ''Sin dato'')"

text \<open>One row of the result: the columns read, then the seven columns added.\<close>

definition derive_row :: "bool \<Rightarrow> predio \<Rightarrow> string option \<Rightarrow> string option \<Rightarrow> derived" where
  "derive_row has_diferencia r band_avaluo band_area =
     \<lparr>NO = NO r, clase = clase r, ESTRATO = ESTRATO r, DESTINACION = DESTINACION r,
      avaluo2024 = avaluo2024 r, area_const = area_const r, tarifa = tarifa r,
      TARIFA_PROPUESTA = TARIFA_PROPUESTA r,
      DIFERENCIA_EN_EL_VALOR = DIFERENCIA_EN_EL_VALOR r,
      zona = zona_of (clase r),
      estrato_cat = estrato_cat_of (ESTRATO r),
      rango_avaluo_2024 = band_avaluo,
      rango_area_const = band_area,
      cambio_tarifa = cell_sub (TARIFA_PROPUESTA r) (tarifa r),
      situacion_tarifa = situacion_tarifa_of (cell_sub (TARIFA_PROPUESTA r) (tarifa r)),
      situacion_ipu = situacion_ipu_of has_diferencia (DIFERENCIA_EN_EL_VALOR r)\<rparr>"

text \<open>
  \<^verbatim>\<open>load_data\<close> on the sheet read by \<^verbatim>\<open>pd.read_excel\<close>: an exception of either
  \<^verbatim>\<open>pd.cut\<close> call ends it; otherwise every kept row gets its derived columns, in the
  order of the sheet.
\<close>

definition load_data :: "sheet \<Rightarrow> py_error + derived list" where
  "load_data sh =
     (let df = exclude_NO sh
      in case rango_avaluo (map avaluo2024 df) of
           Inl e \<Rightarrow> Inl e
         | Inr bands_avaluo \<Rightarrow>
             (case rango_area (map area_const df) of
                Inl e \<Rightarrow> Inl e
              | Inr bands_area \<Rightarrow>
                  Inr (map (\<lambda>(r, a, b).
                             derive_row (''DIFERENCIA EN EL VALOR'' \<in> set (columns sh)) r a b)
                         (zip df (zip bands_avaluo bands_area)))))"

section \<open>The filters of the sidebar\<close>

text \<open>
  The selections of the three multi-select widgets and the two sliders. The script
  applies one boolean mask after the other to a copy of the derived frame.
\<close>

record criteria =
  zona_sel :: "string list"
  estrato_sel :: "string list"
  dest_sel :: "string list"
  aval_rango :: "real \<times> real"
  area_rango :: "real \<times> real"

definition df_filt :: "criteria \<Rightarrow> derived list \<Rightarrow> derived list" where
  "df_filt c data =
     (let d1 = filter (\<lambda>r. isin (zona_sel c) (Some (zona r))) data;
          d2 = filter (\<lambda>r. isin (estrato_sel c) (Some (estrato_cat r))) d1;
          d3 = filter (\<lambda>r. isin (dest_sel c) (DESTINACION r)) d2;
          d4 = filter (\<lambda>r. cell_ge (avaluo2024 r) (fst (aval_rango c))
                           \<and> cell_le (avaluo2024 r) (snd (aval_rango c))) d3;
          d5 = filter (\<lambda>r. cell_ge (area_const r) (fst (area_rango c))
                           \<and> cell_le (area_const r) (snd (area_rango c))) d4
      in d5)"

text \<open>
  The filter lines contain no \<^verbatim>\<open>raise\<close> and boolean indexing raises nothing on these
  columns: as a computation that could fail, the filter always returns its subset.
\<close>

definition df_filt_outcome :: "criteria \<Rightarrow> derived list \<Rightarrow> py_error + derived list" where
  "df_filt_outcome c data = Inr (df_filt c data)"

section \<open>Example data\<close>

text \<open>
  A sheet of four rows, one of them marked \<^verbatim>\<open>"NO"\<close>, and the frame \<^verbatim>\<open>load_data\<close>
  computes from it.
\<close>

definition example_sheet :: sheet where
  "example_sheet =
     \<lparr>columns = [''NO'', ''clase'', ''ESTRATO'', ''DESTINACION'', ''avaluo2024'',
                 ''area_const'', ''tarifa'', ''TARIFA PROPUESTA''],
      rows =
        [\<lparr>NO = NaN, clase = Num 1, ESTRATO = Some 3, DESTINACION = Some ''HABITACIONAL'',
          avaluo2024 = Some 100, area_const = Some 35, tarifa = Some 5,
          TARIFA_PROPUESTA = Some 4, DIFERENCIA_EN_EL_VALOR = None\<rparr>,
         \<lparr>NO = Str ''NO'', clase = Num 1, ESTRATO = Some 2, DESTINACION = Some ''HABITACIONAL'',
          avaluo2024 = Some 150, area_const = Some 60, tarifa = Some 5,
          TARIFA_PROPUESTA = Some 7, DIFERENCIA_EN_EL_VALOR = None\<rparr>,
         \<lparr>NO = Str ''SI'', clase = Num 2, ESTRATO = None, DESTINACION = Some ''COMERCIAL'',
          avaluo2024 = Some 200, area_const = Some 80, tarifa = Some 5,
          TARIFA_PROPUESTA = Some 5, DIFERENCIA_EN_EL_VALOR = None\<rparr>,
         \<lparr>NO = NaN, clase = NaN, ESTRATO = Some 0, DESTINACION = None,
          avaluo2024 = Some 300, area_const = Some 500, tarifa = Some 6,
          TARIFA_PROPUESTA = Some 8, DIFERENCIA_EN_EL_VALOR = None\<rparr>]\<rparr>"

definition example_derived :: "derived list" where
  "example_derived =
     [\<lparr>NO = NaN, clase = Num 1, ESTRATO = Some 3, DESTINACION = Some ''HABITACIONAL'',
       avaluo2024 = Some 100, area_const = Some 35, tarifa = Some 5,
       TARIFA_PROPUESTA = Some 4, DIFERENCIA_EN_EL_VALOR = None,
       zona = ''URBANO'', estrato_cat = ''3'', rango_avaluo_2024 = Some ''$100 - $140'',
       rango_area_const = Some (''0 - 35 m'' @ [CHR 0xC2, CHR 0xB2]),
       cambio_tarifa = Some (- 1), situacion_tarifa = ''Baja tarifa'',
       situacion_ipu = ''Sin dato''\<rparr>,
      \<lparr>NO = Str ''SI'', clase = Num 2, ESTRATO = None, DESTINACION = Some ''COMERCIAL'',
       avaluo2024 = Some 200, area_const = Some 80, tarifa = Some 5,
       TARIFA_PROPUESTA = Some 5, DIFERENCIA_EN_EL_VALOR = None,
       zona = ''RURAL'', estrato_cat = ''SIN ESTRATO'',
       rango_avaluo_2024 = Some ''$180 - $220'',
       rango_area_const = Some (''70 - 120 m'' @ [CHR 0xC2, CHR 0xB2]),
       cambio_tarifa = Some 0, situacion_tarifa = ''Misma tarifa'',
       situacion_ipu = ''Sin dato''\<rparr>,
      \<lparr>NO = NaN, clase = NaN, ESTRATO = Some 0, DESTINACION = None,
       avaluo2024 = Some 300, area_const = Some 500, tarifa = Some 6,
       TARIFA_PROPUESTA = Some 8, DIFERENCIA_EN_EL_VALOR = None,
       zona = ''SIN CLASE'', estrato_cat = ''SIN ESTRATO'',
       rango_avaluo_2024 = Some ''$260 - $300'',
       rango_area_const = Some (''M'' @ [CHR 0xC3, CHR 0xA1] @ ''s de 120 m'' @ [CHR 0xC2, CHR 0xB2]),
       cambio_tarifa = Some 2, situacion_tarifa = ''Sube tarifa'',
       situacion_ipu = ''Sin dato''\<rparr>]"

text \<open>A sheet whose rows all carry the same valuation, and one with a negative area.\<close>

definition identical_avaluo_sheet :: sheet where
  "identical_avaluo_sheet =
     \<lparr>columns = [''clase'', ''ESTRATO'', ''DESTINACION'', ''avaluo2024'', ''area_const'',
                 ''tarifa'', ''TARIFA PROPUESTA''],
      rows =
        [\<lparr>NO = NaN, clase = Num 1, ESTRATO = Some 1, DESTINACION = Some ''HABITACIONAL'',
          avaluo2024 = Some 100, area_const = Some 40, tarifa = Some 5,
          TARIFA_PROPUESTA = Some 5, DIFERENCIA_EN_EL_VALOR = None\<rparr>,
         \<lparr>NO = NaN, clase = Num 1, ESTRATO = Some 2, DESTINACION = Some ''HABITACIONAL'',
          avaluo2024 = Some 100, area_const = Some 50, tarifa = Some 5,
          TARIFA_PROPUESTA = Some 6, DIFERENCIA_EN_EL_VALOR = None\<rparr>,
         \<lparr>NO = NaN, clase = Num 2, ESTRATO = Some 3, DESTINACION = Some ''COMERCIAL'',
          avaluo2024 = Some 100, area_const = Some 60, tarifa = Some 5,
          TARIFA_PROPUESTA = Some 4, DIFERENCIA_EN_EL_VALOR = None\<rparr>]\<rparr>"

definition negative_area_sheet :: sheet where
  "negative_area_sheet =
     \<lparr>columns = [''clase'', ''ESTRATO'', ''DESTINACION'', ''avaluo2024'', ''area_const'',
                 ''tarifa'', ''TARIFA PROPUESTA''],
      rows =
        [\<lparr>NO = NaN, clase = Num 1, ESTRATO = Some 1, DESTINACION = Some ''HABITACIONAL'',
          avaluo2024 = Some 100, area_const = Some (- 1), tarifa = Some 5,
          TARIFA_PROPUESTA = Some 5, DIFERENCIA_EN_EL_VALOR = None\<rparr>,
         \<lparr>NO = NaN, clase = Num 1, ESTRATO = Some 2, DESTINACION = Some ''HABITACIONAL'',
          avaluo2024 = Some 200, area_const = Some 50, tarifa = Some 5,
          TARIFA_PROPUESTA = Some 6, DIFERENCIA_EN_EL_VALOR = None\<rparr>]\<rparr>"

definition all_criteria :: criteria where
  "all_criteria =
     \<lparr>zona_sel = [''RURAL'', ''SIN CLASE'', ''URBANO''],
      estrato_sel = [''3'', ''SIN ESTRATO''],
      dest_sel = [''COMERCIAL'', ''HABITACIONAL''],
      aval_rango = (100, 300),
      area_rango = (35, 500)\<rparr>"

section \<open>Facts about the primitives\<close>

lemma str_nat_not_Nil: "str_nat n \<noteq> []"
  by (subst str_nat.simps) simp

lemma digit_char_zero_iff: "d < 10 \<Longrightarrow> digit_char d = CHR ''0'' \<longleftrightarrow> d = 0"
  by (simp add: digit_char_def)

lemma str_nat_zero_iff: "str_nat n = ''0'' \<longleftrightarrow> n = 0"
proof (cases "n < 10")
  case True
  then show ?thesis
    by (subst str_nat.simps) (simp add: digit_char_zero_iff)
next
  case False
  have "length (str_nat (n div 10) @ [digit_char (n mod 10)]) \<ge> 2"
    using str_nat_not_Nil [of "n div 10"] by (cases "str_nat (n div 10)") simp_all
  then have "str_nat (n div 10) @ [digit_char (n mod 10)] \<noteq> ''0''"
    by auto
  with False show ?thesis
    by (subst str_nat.simps) auto
qed

lemma str_int_zero_iff: "str_int k = ''0'' \<longleftrightarrow> k = 0"
  by (auto simp: str_int_def str_nat_zero_iff)

lemma estrato_cat_of_eq:
  "estrato_cat_of e =
     (if astype_int (fillna 0 e) = 0 then ''SIN ESTRATO'' else str_int (astype_int (fillna 0 e)))"
  by (simp add: estrato_cat_of_def replace_dict_def str_int_zero_iff)

lemma int64_wrap_id: "- (2 ^ 63) \<le> k \<Longrightarrow> k < 2 ^ 63 \<Longrightarrow> int64_wrap k = k"
  by (simp add: int64_wrap_def)

lemma astype_int_of_int:
  "- (2 ^ 63) \<le> k \<Longrightarrow> k < 2 ^ 63 \<Longrightarrow> astype_int (of_int k) = k"
  by (simp add: astype_int_def int64_wrap_id)

lemma astype_int_zero: "astype_int 0 = 0"
  by (simp add: astype_int_def int64_wrap_def)

lemma astype_int_wraps: "astype_int (10 ^ 19) = - 8446744073709551616"
  by (simp add: astype_int_def int64_wrap_def)

subsection \<open>The decimal string of an integer reads back as the integer\<close>

lemma digit_of_digit_char: "d < 10 \<Longrightarrow> digit_of (digit_char d) = Some d"
  by (simp add: digit_of_def digit_char_def)

lemma digit_char_not_minus: "digit_char d \<noteq> CHR ''-''"
  by (simp add: digit_char_def)

lemma digits_value_snoc:
  "digits_value (cs @ [c]) acc =
     (case digits_value cs acc of
        None \<Rightarrow> None
      | Some m \<Rightarrow> (case digit_of c of None \<Rightarrow> None | Some d \<Rightarrow> Some (10 * m + d)))"
  by (induction cs arbitrary: acc) (simp_all split: option.splits)

lemma digits_value_str_nat: "digits_value (str_nat n) 0 = Some n"
proof (induction n rule: str_nat.induct)
  case (1 n)
  show ?case
  proof (cases "n < 10")
    case True
    then show ?thesis
      by (subst str_nat.simps) (simp add: digit_of_digit_char)
  next
    case False
    with "1.IH" have "digits_value (str_nat (n div 10)) 0 = Some (n div 10)"
      by simp
    with False show ?thesis
      by (subst str_nat.simps) (simp add: digits_value_snoc digit_of_digit_char)
  qed
qed

lemma hd_str_nat_digit: "\<exists>d < 10. hd (str_nat n) = digit_char d \<and> (d = 0 \<longrightarrow> n = 0)"
proof (induction n rule: str_nat.induct)
  case (1 n)
  show ?case
  proof (cases "n < 10")
    case True
    then show ?thesis
      by (subst str_nat.simps) auto
  next
    case False
    with "1.IH" obtain d where "d < 10" and "hd (str_nat (n div 10)) = digit_char d"
      and "d = 0 \<longrightarrow> n div 10 = 0"
      by auto
    moreover from False have "n div 10 \<noteq> 0"
      by simp
    ultimately show ?thesis
      using False str_nat_not_Nil [of "n div 10"]
      by (subst str_nat.simps) auto
  qed
qed

lemma hd_str_nat_not_zero:
  assumes "0 < n"
  shows "hd (str_nat n) \<noteq> CHR ''0''"
proof -
  obtain d where d: "d < 10" "hd (str_nat n) = digit_char d" "d = 0 \<longrightarrow> n = 0"
    using hd_str_nat_digit [of n] by blast
  with assms have "d \<noteq> 0"
    by auto
  with d(1) have "digit_char d \<noteq> CHR ''0''"
    by (simp add: digit_char_zero_iff)
  with d(2) show ?thesis
    by simp
qed

lemma hd_str_nat_not_minus: "hd (str_nat n) \<noteq> CHR ''-''"
proof -
  obtain d where "hd (str_nat n) = digit_char d"
    using hd_str_nat_digit [of n] by blast
  then show ?thesis
    by (simp add: digit_char_not_minus)
qed

lemma str_nat_0: "str_nat 0 = ''0''"
  by (simp add: str_nat.simps digit_char_def)

lemma decimal_nat_str_nat: "decimal_nat (str_nat n) = Some n"
proof (cases "n = 0")
  case True
  then show ?thesis
    by (simp add: decimal_nat_def str_nat_0 digit_of_def)
next
  case False
  then show ?thesis
    by (simp add: decimal_nat_def str_nat_not_Nil hd_str_nat_not_zero digits_value_str_nat)
qed

lemma decimal_int_str_int: "decimal_int (str_int k) = Some k"
proof (cases "k < 0")
  case True
  then show ?thesis
    by (simp add: decimal_int_def str_int_def decimal_nat_str_nat)
next
  case False
  then show ?thesis
    by (simp add: decimal_int_def str_int_def decimal_nat_str_nat str_nat_not_Nil
        hd_str_nat_not_minus)
qed

lemma pd_cut_length: "pd_cut x bins labels il dd = Inr ys \<Longrightarrow> length ys = length x"
  by (auto simp: pd_cut_def Let_def split: if_splits)

lemma rango_area_eq: "rango_area col = Inr (map (cut_one area_bins area_labels True) col)"
  by (simp add: rango_area_def pd_cut_def area_bins_def area_labels_def)

lemma rango_avaluo_length: "rango_avaluo col = Inr ys \<Longrightarrow> length ys = length col"
  by (auto simp: rango_avaluo_def Let_def pd_cut_length split: if_splits)

lemma load_data_Inr:
  assumes "load_data sh = Inr d"
  obtains bands where "rango_avaluo (map avaluo2024 (exclude_NO sh)) = Inr bands"
    and "length bands = length (exclude_NO sh)"
    and "d = map (\<lambda>(r, a). derive_row (''DIFERENCIA EN EL VALOR'' \<in> set (columns sh)) r a
                      (cut_one area_bins area_labels True (area_const r)))
               (zip (exclude_NO sh) bands)"
proof -
  from assms obtain bands where b: "rango_avaluo (map avaluo2024 (exclude_NO sh)) = Inr bands"
    and d: "d = map (\<lambda>(r, a, b). derive_row (''DIFERENCIA EN EL VALOR'' \<in> set (columns sh)) r a b)
                 (zip (exclude_NO sh) (zip bands (map (cut_one area_bins area_labels True)
                     (map area_const (exclude_NO sh)))))"
    by (auto simp: load_data_def Let_def rango_area_eq split: sum.splits)
  have len: "length bands = length (exclude_NO sh)"
    using rango_avaluo_length [OF b] by simp
  have "d = map (\<lambda>(r, a). derive_row (''DIFERENCIA EN EL VALOR'' \<in> set (columns sh)) r a
                      (cut_one area_bins area_labels True (area_const r)))
               (zip (exclude_NO sh) bands)"
    unfolding d using len by (intro nth_equalityI) simp_all
  with b len show thesis by (rule that)
qed

lemma load_data_truncate:
  assumes "load_data sh = Inr d"
  shows "map predio.truncate d = exclude_NO sh"
proof -
  from assms obtain bands where len: "length bands = length (exclude_NO sh)"
    and d: "d = map (\<lambda>(r, a). derive_row (''DIFERENCIA EN EL VALOR'' \<in> set (columns sh)) r a
                      (cut_one area_bins area_labels True (area_const r)))
               (zip (exclude_NO sh) bands)"
    by (rule load_data_Inr)
  show ?thesis
    unfolding d using len
    by (intro nth_equalityI) (simp_all add: derive_row_def predio.truncate_def)
qed

lemma load_data_row:
  assumes "load_data sh = Inr d" and "r \<in> set d"
  obtains src a where "src \<in> set (exclude_NO sh)"
    and "r = derive_row (''DIFERENCIA EN EL VALOR'' \<in> set (columns sh)) src a
               (cut_one area_bins area_labels True (area_const src))"
proof -
  from assms(1) obtain bands where
    d: "d = map (\<lambda>(r, a). derive_row (''DIFERENCIA EN EL VALOR'' \<in> set (columns sh)) r a
                      (cut_one area_bins area_labels True (area_const r)))
               (zip (exclude_NO sh) bands)"
    by (rule load_data_Inr)
  from assms(2) obtain src a where "(src, a) \<in> set (zip (exclude_NO sh) bands)"
    and "r = derive_row (''DIFERENCIA EN EL VALOR'' \<in> set (columns sh)) src a
               (cut_one area_bins area_labels True (area_const src))"
    unfolding d by auto
  then show thesis
    using that by (auto dest: set_zip_leftD)
qed

lemma load_example: "load_data example_sheet = Inr example_derived"
  unfolding example_sheet_def example_derived_def by code_simp

lemma cut_one_area:
  "0 \<le> a \<Longrightarrow> cut_one area_bins area_labels True (Some a) =
     Some (if a \<le> 35 then area_labels ! 0 else if a \<le> 70 then area_labels ! 1
           else if a \<le> 120 then area_labels ! 2 else area_labels ! 3)"
  by (simp add: cut_one_def area_bins_def Let_def eval_nat_numeral)

lemma cut_one_area_negative: "a < 0 \<Longrightarrow> cut_one area_bins area_labels True (Some a) = None"
  by (simp add: cut_one_def area_bins_def Let_def)

lemma df_filt_filter:
  "df_filt c data =
     filter (\<lambda>r. zona r \<in> set (zona_sel c) \<and> estrato_cat r \<in> set (estrato_sel c)
                \<and> (\<exists>s. DESTINACION r = Some s \<and> s \<in> set (dest_sel c))
                \<and> (\<exists>v. avaluo2024 r = Some v \<and> fst (aval_rango c) \<le> v \<and> v \<le> snd (aval_rango c))
                \<and> (\<exists>a. area_const r = Some a \<and> fst (area_rango c) \<le> a \<and> a \<le> snd (area_rango c)))
       data"
  unfolding df_filt_def Let_def filter_filter
  by (rule filter_cong) (auto simp: isin_def cell_ge_def cell_le_def split: option.splits)

lemma length_filter_mono:
  "(\<And>x. x \<in> set xs \<Longrightarrow> P x \<Longrightarrow> Q x) \<Longrightarrow> length (filter P xs) \<le> length (filter Q xs)"
  by (induction xs) auto

subsection \<open>The list reads of the model stay within range\<close>

text \<open>
  Under the guard of \<^verbatim>\<open>load_data\<close> (a non-missing value exists) and for a quantile
  point between 0 and 1, both positions \<open>quantile\<close> reads lie within the sorted values.
\<close>

lemma quantile_reads_in_range:
  assumes "xs \<noteq> []" and "0 \<le> q" and "q \<le> 1"
  shows "nat \<lfloor>q * real (length (sort xs) - 1)\<rfloor> < length (sort xs)
       \<and> min (nat \<lfloor>q * real (length (sort xs) - 1)\<rfloor> + 1) (length (sort xs) - 1)
           < length (sort xs)"
proof -
  let ?n = "length (sort xs)"
  have n: "0 < ?n"
    using assms(1) by simp
  have "q * real (?n - 1) \<le> real (?n - 1)"
    using assms(2,3) by (simp add: mult_left_le_one_le)
  then have "\<lfloor>q * real (?n - 1)\<rfloor> \<le> int (?n - 1)"
    by (simp add: floor_le_iff)
  then have "nat \<lfloor>q * real (?n - 1)\<rfloor> < ?n"
    using n by linarith
  moreover have "min (nat \<lfloor>q * real (?n - 1)\<rfloor> + 1) (?n - 1) < ?n"
    using n by (intro min.strict_coboundedI2) simp
  ultimately show ?thesis
    by simp
qed

text \<open>
  When the labels are one fewer than the edges, as \<open>pd_cut\<close> checks, a band that
  \<open>cut_one\<close> gives is one of the labels.
\<close>

lemma cut_one_in_labels:
  assumes len: "length labels + 1 = length bins"
    and cut: "cut_one bins labels include_lowest x = Some l"
  shows "l \<in> set labels"
proof -
  from cut obtain v where x: "x = Some v"
    by (cases x) (simp_all add: cut_one_def)
  define ids where
    "ids = (if include_lowest \<and> hd bins = Fin v then 1
            else length (filter (\<lambda>b. edge_less b v) bins))"
  from cut have ids: "ids \<noteq> length bins" "ids \<noteq> 0" and l: "l = labels ! (ids - 1)"
    by (auto simp: cut_one_def x ids_def Let_def split: if_splits)
  have "length (filter (\<lambda>b. edge_less b v) bins) \<le> length bins"
    by (rule length_filter_le)
  moreover have "1 \<le> length bins"
    using len by simp
  ultimately have "ids \<le> length bins"
    by (simp add: ids_def)
  with ids len have "ids - 1 < length labels"
    by simp
  then show ?thesis
    unfolding l by (rule nth_mem)
qed

subsection \<open>Quantile edges of a constant column\<close>

lemma dropna_replicate: "dropna (replicate n (Some v)) = replicate n v"
  by (induction n) simp_all

lemma sort_replicate: "sort (replicate n (v::real)) = replicate n v"
  by (simp add: sorted_sort_id)

lemma quantile_replicate:
  assumes "0 < n" and "0 \<le> q" and "q \<le> 1"
  shows "quantile (replicate n v) q = v"
proof -
  have "q * real (n - 1) \<le> real (n - 1)"
    using assms by (simp add: mult_left_le_one_le)
  then have "\<lfloor>q * real (n - 1)\<rfloor> \<le> int (n - 1)"
    by (simp add: floor_le_iff)
  then have lo: "nat \<lfloor>q * real (n - 1)\<rfloor> < n"
    using assms(1) by linarith
  have hi: "min (nat \<lfloor>q * real (n - 1)\<rfloor> + 1) (n - 1) < n"
    using assms(1) by simp
  show ?thesis
    using lo hi by (simp add: quantile_def sort_replicate Let_def)
qed

lemma quantiles_replicate:
  "0 < n \<Longrightarrow> map (quantile (replicate n v)) quantile_points = [v, v, v, v, v, v]"
  by (simp add: quantile_points_def quantile_replicate)

lemma cut_one_single_edge: "cut_one [Fin v] [] True x = None"
  by (cases x) (simp_all add: cut_one_def Let_def)

lemma rango_avaluo_replicate:
  assumes "0 < n"
  shows "rango_avaluo (replicate n (Some v)) = Inr (replicate n None)"
proof -
  have "np_unique (map (quantile (replicate n v)) quantile_points) = [v]"
    using assms by (simp add: quantiles_replicate np_unique_def)
  moreover have "pd_cut col [Fin v] [] True True = Inr (map (\<lambda>x. None) col)" for col
    by (simp add: pd_cut_def cut_one_single_edge)
  ultimately show ?thesis
    using assms by (simp add: rango_avaluo_def dropna_replicate avaluo_labels_def)
qed

text \<open>
  Edges that stay distinct can still format to the same label; \<^verbatim>\<open>pd.cut\<close> then rejects
  the repeated label.
\<close>

lemma close_avaluo_raises:
  "rango_avaluo [Some 100, Some 100, Some 100, Some (1002 / 10), Some (1004 / 10)]
     = Inl ValueError"
  by code_simp

lemma load_identical:
  "map_sum id (map (\<lambda>r. (avaluo2024 r, rango_avaluo_2024 r))) (load_data identical_avaluo_sheet)
     = Inr [(Some 100, None), (Some 100, None), (Some 100, None)]"
  unfolding identical_avaluo_sheet_def by code_simp

section \<open>The derived columns\<close>

text \<open>
  Claim C5. In every row of the frame \<^verbatim>\<open>load_data\<close> returns, \<open>zona\<close> is \<^verbatim>\<open>URBANO\<close>
  when \<open>clase\<close> is the number 1, \<^verbatim>\<open>RURAL\<close> when it is the number 2, and
  \<^verbatim>\<open>SIN CLASE\<close> for any other cell, the missing one included.
\<close>

theorem zona_mapping:
  assumes "load_data sh = Inr d" and "r \<in> set d"
  shows "zona r =
           (if clase r = Num 1 then ''URBANO''
            else if clase r = Num 2 then ''RURAL'' else ''SIN CLASE'')"
proof -
  from assms obtain src a where
    "r = derive_row (''DIFERENCIA EN EL VALOR'' \<in> set (columns sh)) src a
           (cut_one area_bins area_labels True (area_const src))"
    by (rule load_data_row)
  then show ?thesis
    by (simp add: derive_row_def zona_of_def series_map_def fillna_def split: cell.splits)
qed

theorem zona_mapping_witness:
  "load_data example_sheet = Inr example_derived
   \<and> example_derived ! 1 \<in> set example_derived
   \<and> clase (example_derived ! 1) = Num 2
   \<and> zona (example_derived ! 1) = ''RURAL''"
  using zona_mapping [OF load_example, of "example_derived ! 1"] load_example
  by (simp add: example_derived_def)

text \<open>
  Claim C6. In every row of the derived frame, \<open>estrato_cat\<close> is \<^verbatim>\<open>SIN ESTRATO\<close> when
  \<open>ESTRATO\<close> is missing or 0, and for any other integer \<open>ESTRATO\<close> (an integer a
  64-bit column can hold) it is the string form of that integer: the string
  \<open>str_int\<close> computes, which is the canonical decimal numeral that reads back as the
  integer.
\<close>

theorem estrato_cat_rule:
  assumes "load_data sh = Inr d" and "r \<in> set d"
  shows "(ESTRATO r = None \<or> ESTRATO r = Some 0 \<longrightarrow> estrato_cat r = ''SIN ESTRATO'')
       \<and> (\<forall>k. ESTRATO r = Some (of_int k) \<and> k \<noteq> 0 \<and> - (2 ^ 63) \<le> k \<and> k < 2 ^ 63 \<longrightarrow>
              estrato_cat r = str_int k \<and> decimal_int (estrato_cat r) = Some k)"
proof -
  from assms obtain src a where
    r: "r = derive_row (''DIFERENCIA EN EL VALOR'' \<in> set (columns sh)) src a
           (cut_one area_bins area_labels True (area_const src))"
    by (rule load_data_row)
  have cat: "estrato_cat r = estrato_cat_of (ESTRATO r)"
    by (simp add: r derive_row_def)
  have missing: "estrato_cat r = ''SIN ESTRATO''" if "ESTRATO r = None \<or> ESTRATO r = Some 0"
    using that by (auto simp: cat estrato_cat_of_eq fillna_def astype_int_zero)
  have present: "estrato_cat r = str_int k \<and> decimal_int (estrato_cat r) = Some k"
    if "ESTRATO r = Some (of_int k)" and "k \<noteq> 0" and "- (2 ^ 63) \<le> k" and "k < 2 ^ 63" for k
  proof -
    from that have "astype_int (fillna 0 (ESTRATO r)) = k"
      by (simp add: fillna_def astype_int_of_int)
    with that(2) have "estrato_cat r = str_int k"
      by (simp add: cat estrato_cat_of_eq)
    then show ?thesis
      by (simp add: decimal_int_str_int)
  qed
  from missing present show ?thesis
    by blast
qed

theorem estrato_cat_rule_witness:
  "load_data example_sheet = Inr example_derived
   \<and> example_derived ! 0 \<in> set example_derived
   \<and> ESTRATO (example_derived ! 0) = Some (of_int 3)
   \<and> (3::int) \<noteq> 0 \<and> - (2 ^ 63) \<le> (3::int) \<and> (3::int) < 2 ^ 63
   \<and> estrato_cat (example_derived ! 0) = str_int 3
   \<and> decimal_int (estrato_cat (example_derived ! 0)) = Some 3
   \<and> estrato_cat (example_derived ! 0) = ''3''
   \<and> example_derived ! 1 \<in> set example_derived
   \<and> ESTRATO (example_derived ! 1) = None
   \<and> estrato_cat (example_derived ! 1) = ''SIN ESTRATO''"
proof -
  have str: "str_int 3 = ''3''"
    by (simp add: str_int_def str_nat.simps digit_char_def)
  have dec: "decimal_int ''3'' = Some 3"
    by (simp add: decimal_int_def decimal_nat_def digit_of_def)
  show ?thesis
    using estrato_cat_rule [OF load_example, of "example_derived ! 0"]
      estrato_cat_rule [OF load_example, of "example_derived ! 1"] load_example str dec
    by (simp add: example_derived_def)
qed

text \<open>
  Claim C3. In every row of the derived frame with both tariffs present,
  \<open>situacion_tarifa\<close> is \<^verbatim>\<open>Sube tarifa\<close> exactly when the proposed tariff is above the
  current one, \<^verbatim>\<open>Baja tarifa\<close> exactly when it is below, \<^verbatim>\<open>Misma tarifa\<close> exactly when
  the two are equal, and it is never the default \<^verbatim>\<open>Sin dato\<close>.
\<close>

theorem situacion_tarifa_sign:
  assumes "load_data sh = Inr d" and "r \<in> set d"
    and "tarifa r = Some t" and "TARIFA_PROPUESTA r = Some p"
  shows "(situacion_tarifa r = ''Sube tarifa'' \<longleftrightarrow> t < p)
       \<and> (situacion_tarifa r = ''Baja tarifa'' \<longleftrightarrow> p < t)
       \<and> (situacion_tarifa r = ''Misma tarifa'' \<longleftrightarrow> p = t)
       \<and> situacion_tarifa r \<noteq> ''Sin dato''"
proof -
  from assms(1,2) obtain src a where
    r: "r = derive_row (''DIFERENCIA EN EL VALOR'' \<in> set (columns sh)) src a
           (cut_one area_bins area_labels True (area_const src))"
    by (rule load_data_row)
  from assms(3,4) have "tarifa src = Some t" and "TARIFA_PROPUESTA src = Some p"
    by (simp_all add: r derive_row_def)
  then have "situacion_tarifa r =
      (if p < t then ''Baja tarifa'' else if p = t then ''Misma tarifa'' else ''Sube tarifa'')"
    by (simp add: r derive_row_def situacion_tarifa_of_def cell_sub_def cell_lt_def
        cell_eq_def cell_gt_def)
  then show ?thesis
    by (cases "p < t"; cases "p = t") auto
qed

theorem situacion_tarifa_sign_witness:
  "load_data example_sheet = Inr example_derived
   \<and> example_derived ! 2 \<in> set example_derived
   \<and> tarifa (example_derived ! 2) = Some 6
   \<and> TARIFA_PROPUESTA (example_derived ! 2) = Some 8
   \<and> situacion_tarifa (example_derived ! 2) = ''Sube tarifa''
   \<and> situacion_tarifa (example_derived ! 2) \<noteq> ''Sin dato''"
  using situacion_tarifa_sign [OF load_example, of "example_derived ! 2" 6 8] load_example
  by (simp add: example_derived_def)

text \<open>
  Claim C7. \<open>area_const\<close> is a non-negative area. In every row of the derived frame
  whose \<open>area_const\<close> is present, \<open>rango_area_const\<close> is the label of exactly one of
  the four fixed bands \<open>[0, 35]\<close>, \<open>(35, 70]\<close>, \<open>(70, 120]\<close> and \<open>(120, \<infinity>)\<close>; the band
  depends on the area alone, whatever the other rows hold, and an area of 35, 70 or 120
  falls into the band below it.
\<close>

theorem rango_area_const_bands:
  assumes "load_data sh = Inr d" and "r \<in> set d"
    and "area_const r = Some a" and "0 \<le> a"
  shows "rango_area_const r =
           Some (if a \<le> 35 then area_labels ! 0 else if a \<le> 70 then area_labels ! 1
                 else if a \<le> 120 then area_labels ! 2 else area_labels ! 3)"
proof -
  from assms(1,2) obtain src b where
    r: "r = derive_row (''DIFERENCIA EN EL VALOR'' \<in> set (columns sh)) src b
           (cut_one area_bins area_labels True (area_const src))"
    by (rule load_data_row)
  from assms(3) have "area_const src = Some a"
    by (simp add: r derive_row_def)
  then have "rango_area_const r = cut_one area_bins area_labels True (Some a)"
    by (simp add: r derive_row_def)
  with assms(4) show ?thesis
    by (simp only: cut_one_area)
qed

theorem rango_area_const_bands_witness:
  "load_data example_sheet = Inr example_derived
   \<and> example_derived ! 0 \<in> set example_derived
   \<and> area_const (example_derived ! 0) = Some 35
   \<and> (0::real) \<le> 35
   \<and> rango_area_const (example_derived ! 0) = Some (area_labels ! 0)"
  using rango_area_const_bands [OF load_example, of "example_derived ! 0" 35] load_example
  by (simp add: example_derived_def area_labels_def)

text \<open>
  A cell below the first edge, which is no area, is left without a band by \<^verbatim>\<open>pd.cut\<close>.
\<close>

lemma negative_area_no_band:
  "map_sum id (map (\<lambda>r. (area_const r, rango_area_const r))) (load_data negative_area_sheet)
     = Inr [(Some (- 1), None), (Some 50, Some (area_labels ! 1))]"
  unfolding negative_area_sheet_def by code_simp

text \<open>
  Claim C1. When every kept row carries the same valuation, \<^verbatim>\<open>load_data\<close> returns
  without an exception, but the six quantiles collapse to one edge, the label list is
  empty, and every row is left without a valuation band: no band covers the rows.
\<close>

theorem identical_avaluo_no_band:
  assumes rows: "exclude_NO sh \<noteq> []"
    and same: "\<forall>r\<in>set (exclude_NO sh). avaluo2024 r = Some v"
  shows "\<exists>d. load_data sh = Inr d \<and> length d = length (exclude_NO sh)
            \<and> (\<forall>r\<in>set d. avaluo2024 r = Some v \<and> rango_avaluo_2024 r = None)"
proof -
  let ?df = "exclude_NO sh"
  have col: "map avaluo2024 ?df = replicate (length ?df) (Some v)"
    using same by (simp add: map_replicate_const [symmetric] cong: map_cong)
  have bands: "rango_avaluo (map avaluo2024 ?df) = Inr (replicate (length ?df) None)"
    unfolding col using rows by (simp add: rango_avaluo_replicate)
  let ?d = "map (\<lambda>(r, a, b). derive_row (''DIFERENCIA EN EL VALOR'' \<in> set (columns sh)) r a b)
               (zip ?df (zip (replicate (length ?df) None)
                  (map (cut_one area_bins area_labels True) (map area_const ?df))))"
  have load: "load_data sh = Inr ?d"
    by (simp add: load_data_def bands rango_area_eq Let_def)
  have "avaluo2024 r = Some v \<and> rango_avaluo_2024 r = None" if "r \<in> set ?d" for r
  proof -
    from that obtain src a b where
      mem: "(src, a, b) \<in> set (zip ?df (zip (replicate (length ?df) None)
                  (map (cut_one area_bins area_labels True) (map area_const ?df))))"
      and r: "r = derive_row (''DIFERENCIA EN EL VALOR'' \<in> set (columns sh)) src a b"
      by auto
    from mem have src: "src \<in> set ?df"
      by (rule set_zip_leftD)
    from mem have "(a, b) \<in> set (zip (replicate (length ?df) None)
                  (map (cut_one area_bins area_labels True) (map area_const ?df)))"
      by (rule set_zip_rightD)
    then have "a \<in> set (replicate (length ?df) None)"
      by (rule set_zip_leftD)
    then have "a = None"
      by simp
    with same src show ?thesis
      by (simp add: r derive_row_def)
  qed
  with load show ?thesis
    by auto
qed

theorem identical_avaluo_no_band_witness:
  "exclude_NO identical_avaluo_sheet \<noteq> []
   \<and> map avaluo2024 (exclude_NO identical_avaluo_sheet) = [Some 100, Some 100, Some 100]
   \<and> map_sum id (map (\<lambda>r. (avaluo2024 r, rango_avaluo_2024 r)))
         (load_data identical_avaluo_sheet)
       = Inr [(Some 100, None), (Some 100, None), (Some 100, None)]"
  using identical_avaluo_no_band [of identical_avaluo_sheet 100] load_identical
  by (simp add: identical_avaluo_sheet_def exclude_NO_def)

section \<open>Exclusion of the rows marked NO\<close>

text \<open>
  Claim C4. When the sheet has the column \<^verbatim>\<open>NO\<close>, no row of the frame \<^verbatim>\<open>load_data\<close>
  returns, and so no row of any filtered view of it, has \<open>NO\<close> equal to the string
  \<^verbatim>\<open>"NO"\<close>. (A sheet without the column has no such cell to speak of.)
\<close>

theorem excluded_rows_absent:
  assumes "load_data sh = Inr d" and "''NO'' \<in> set (columns sh)"
  shows "(\<forall>r\<in>set d. NO r \<noteq> Str ''NO'') \<and> (\<forall>r\<in>set (df_filt c d). NO r \<noteq> Str ''NO'')"
proof -
  have kept: "NO r \<noteq> Str ''NO''" if "r \<in> set d" for r
  proof -
    from that have "predio.truncate r \<in> set (map predio.truncate d)"
      by simp
    with assms have "predio.truncate r \<in> set (filter (\<lambda>r. NO r \<noteq> Str ''NO'') (rows sh))"
      by (simp add: load_data_truncate exclude_NO_def)
    then show ?thesis
      by (simp add: predio.truncate_def)
  qed
  have "set (df_filt c d) \<subseteq> set d"
    by (simp add: df_filt_filter)
  with kept show ?thesis
    by blast
qed

theorem excluded_rows_absent_witness:
  "load_data example_sheet = Inr example_derived
   \<and> ''NO'' \<in> set (columns example_sheet)
   \<and> map NO (rows example_sheet) = [NaN, Str ''NO'', Str ''SI'', NaN]
   \<and> map NO example_derived = [NaN, Str ''SI'', NaN]
   \<and> map NO (df_filt all_criteria example_derived) = [NaN, Str ''SI'']"
proof -
  have c: "''NO'' \<in> set (columns example_sheet)"
    by (simp add: example_sheet_def)
  show ?thesis
    using excluded_rows_absent [OF load_example c, of all_criteria] load_example c
    by (simp add: example_sheet_def example_derived_def all_criteria_def df_filt_def
        isin_def cell_ge_def cell_le_def)
qed

text \<open>
  Claim C10. When the sheet has the column \<^verbatim>\<open>NO\<close>, the rows of the derived frame are,
  in order and on the columns of the sheet, exactly the rows whose \<open>NO\<close> cell is not
  the string \<^verbatim>\<open>"NO"\<close>: a row with a missing \<open>NO\<close> cell, or with any other value in it,
  is retained.
\<close>

theorem exclusion_only_exact_NO:
  assumes "load_data sh = Inr d" and "''NO'' \<in> set (columns sh)"
  shows "map predio.truncate d = filter (\<lambda>r. NO r \<noteq> Str ''NO'') (rows sh)
       \<and> (\<forall>r\<in>set (rows sh). NO r \<noteq> Str ''NO'' \<longrightarrow> r \<in> set (map predio.truncate d))"
proof -
  from assms(1) have "map predio.truncate d = exclude_NO sh"
    by (rule load_data_truncate)
  with assms(2) have kept: "map predio.truncate d = filter (\<lambda>r. NO r \<noteq> Str ''NO'') (rows sh)"
    by (simp add: exclude_NO_def)
  then have "r \<in> set (map predio.truncate d)" if "r \<in> set (rows sh)" and "NO r \<noteq> Str ''NO''" for r
    using that by simp
  with kept show ?thesis
    by blast
qed

theorem exclusion_only_exact_NO_witness:
  "load_data example_sheet = Inr example_derived
   \<and> ''NO'' \<in> set (columns example_sheet)
   \<and> map predio.truncate example_derived
       = [rows example_sheet ! 0, rows example_sheet ! 2, rows example_sheet ! 3]
   \<and> NO (rows example_sheet ! 0) = NaN
   \<and> NO (rows example_sheet ! 1) = Str ''NO''
   \<and> NO (rows example_sheet ! 2) = Str ''SI''"
proof -
  have c: "''NO'' \<in> set (columns example_sheet)"
    by (simp add: example_sheet_def)
  show ?thesis
    using exclusion_only_exact_NO [OF load_example c] load_example c
    by (simp add: example_sheet_def)
qed

section \<open>The filtered subset\<close>

text \<open>
  Claim C8. The five masks combine by conjunction: the filtered subset holds exactly the
  rows that pass all five tests; and when the selection of zones, of strata or of
  destinations is empty, the subset is empty whatever the other criteria are.
\<close>

theorem df_filt_conjunction:
  "df_filt c data =
     filter (\<lambda>r. zona r \<in> set (zona_sel c) \<and> estrato_cat r \<in> set (estrato_sel c)
                \<and> (\<exists>s. DESTINACION r = Some s \<and> s \<in> set (dest_sel c))
                \<and> (\<exists>v. avaluo2024 r = Some v \<and> fst (aval_rango c) \<le> v \<and> v \<le> snd (aval_rango c))
                \<and> (\<exists>a. area_const r = Some a \<and> fst (area_rango c) \<le> a \<and> a \<le> snd (area_rango c)))
       data
   \<and> (zona_sel c = [] \<or> estrato_sel c = [] \<or> dest_sel c = [] \<longrightarrow> df_filt c data = [])"
proof
  show "df_filt c data =
     filter (\<lambda>r. zona r \<in> set (zona_sel c) \<and> estrato_cat r \<in> set (estrato_sel c)
                \<and> (\<exists>s. DESTINACION r = Some s \<and> s \<in> set (dest_sel c))
                \<and> (\<exists>v. avaluo2024 r = Some v \<and> fst (aval_rango c) \<le> v \<and> v \<le> snd (aval_rango c))
                \<and> (\<exists>a. area_const r = Some a \<and> fst (area_rango c) \<le> a \<and> a \<le> snd (area_rango c)))
       data"
    by (rule df_filt_filter)
  show "zona_sel c = [] \<or> estrato_sel c = [] \<or> dest_sel c = [] \<longrightarrow> df_filt c data = []"
    by (auto simp: df_filt_filter filter_empty_conv)
qed

theorem df_filt_conjunction_witness:
  "estrato_sel (all_criteria\<lparr>estrato_sel := []\<rparr>) = []
   \<and> df_filt (all_criteria\<lparr>estrato_sel := []\<rparr>) example_derived = []
   \<and> length (df_filt all_criteria example_derived) = 2"
  using df_filt_conjunction [of "all_criteria\<lparr>estrato_sel := []\<rparr>" example_derived]
    df_filt_conjunction [of all_criteria example_derived]
  by (simp add: all_criteria_def example_derived_def)

text \<open>
  Claim C9. The filtered subset never has more rows than the frame it is taken from;
  and when two criteria differ only in the valuation range, the range of one contained
  in the range of the other, the subset under the narrower range has at most as many
  rows as the subset under the wider one.
\<close>

theorem df_filt_monotone:
  "length (df_filt c data) \<le> length data
   \<and> ({lo..hi} \<subseteq> {fst (aval_rango c)..snd (aval_rango c)} \<longrightarrow>
        length (df_filt (c\<lparr>aval_rango := (lo, hi)\<rparr>) data) \<le> length (df_filt c data))"
proof (intro conjI impI)
  show "length (df_filt c data) \<le> length data"
    by (simp add: df_filt_filter)
next
  assume sub: "{lo..hi} \<subseteq> {fst (aval_rango c)..snd (aval_rango c)}"
  have inside: "fst (aval_rango c) \<le> v \<and> v \<le> snd (aval_rango c)" if "lo \<le> v" and "v \<le> hi" for v
  proof -
    from that have "v \<in> {lo..hi}" by simp
    with sub have "v \<in> {fst (aval_rango c)..snd (aval_rango c)}" by blast
    then show ?thesis by simp
  qed
  show "length (df_filt (c\<lparr>aval_rango := (lo, hi)\<rparr>) data) \<le> length (df_filt c data)"
    unfolding df_filt_filter
    by (rule length_filter_mono) (auto dest: inside)
qed

theorem df_filt_monotone_witness:
  "{150..300} \<subseteq> {fst (aval_rango all_criteria)..snd (aval_rango all_criteria)}
   \<and> length (df_filt (all_criteria\<lparr>aval_rango := (150, 300)\<rparr>) example_derived) = 1
   \<and> length (df_filt all_criteria example_derived) = 2
   \<and> length example_derived = 3"
  using df_filt_monotone [of all_criteria example_derived 150 300]
  by (simp add: all_criteria_def example_derived_def df_filt_def isin_def cell_ge_def cell_le_def)

text \<open>
  Claim C2, as amended. When the valuation range or the area range of the criteria has
  its minimum above its maximum, the filter raises nothing and returns the empty
  subset.
\<close>

theorem inverted_range_no_error:
  assumes "snd (aval_rango c) < fst (aval_rango c) \<or> snd (area_rango c) < fst (area_rango c)"
  shows "df_filt_outcome c data = Inr []"
proof -
  have "\<not> (fst (aval_rango c) \<le> v \<and> v \<le> snd (aval_rango c)
           \<and> fst (area_rango c) \<le> a \<and> a \<le> snd (area_rango c))" for v a
    using assms by auto
  then have "df_filt c data = []"
    unfolding df_filt_filter filter_empty_conv by blast
  then show ?thesis
    by (simp add: df_filt_outcome_def)
qed

theorem inverted_range_no_error_witness:
  "snd (aval_rango (all_criteria\<lparr>aval_rango := (300, 100)\<rparr>))
     < fst (aval_rango (all_criteria\<lparr>aval_rango := (300, 100)\<rparr>))
   \<and> df_filt_outcome (all_criteria\<lparr>aval_rango := (300, 100)\<rparr>) example_derived = Inr []"
  using inverted_range_no_error [of "all_criteria\<lparr>aval_rango := (300, 100)\<rparr>" example_derived]
  by simp

text \<open>
  The claim as first stated asks for an error: on a frame of three rows and the range
  \<open>(300, 100)\<close> the filter returns normally, with no row.
\<close>

theorem inverted_range_counterexample:
  "snd (aval_rango (all_criteria\<lparr>aval_rango := (300, 100)\<rparr>))
     < fst (aval_rango (all_criteria\<lparr>aval_rango := (300, 100)\<rparr>))
   \<and> example_derived \<noteq> []
   \<and> df_filt_outcome (all_criteria\<lparr>aval_rango := (300, 100)\<rparr>) example_derived = Inr []
   \<and> \<not> isl (df_filt_outcome (all_criteria\<lparr>aval_rango := (300, 100)\<rparr>) example_derived)"
  by (simp add: df_filt_outcome_def df_filt_def all_criteria_def example_derived_def
      cell_ge_def cell_le_def isin_def)

end
